theory Spec2Isabelle
  imports Main "HOL-Library.Word"
begin

section \<open>Data model\<close>

text \<open>
  A Node \<open>Buffer\<close> is a list of bytes. A JavaScript string is a \<open>string\<close>, the list
  of its characters (addresses and base64 texts are ASCII): \<open>address[0]\<close> is
  \<open>undefined\<close> on the empty string, \<open>slice(0, 4)\<close> is \<open>take 4\<close> and \<open>length\<close> counts
  the characters. A message is the buffer of its UTF-8 bytes.
\<close>

type_synonym byte = "8 word"
type_synonym buffer = "byte list"

text \<open>\<open>bitcoin.networks.bitcoin\<close>, \<open>bitcoin.networks.testnet\<close>, \<open>bitcoin.networks.regtest\<close>.\<close>

datatype network = Bitcoin | Testnet | Regtest

text \<open>
  What a call can throw: \<open>Error m\<close> is \<open>throw new Error(m)\<close> of this repository,
  \<open>LibraryError\<close> an exception raised inside a collaborator (bitcoinjs-lib, elliptic,
  the curve provider); the remaining kinds are the typed failures of the verifier and of
  the witness codec.
\<close>

datatype error =
    Error string
  | LibraryError
  | InvalidAddress
  | InvalidSignature
  | RecoveryFailed
  | MalformedWitness

text \<open>
  The collaborators of \<open>Address.ts\<close>, taken as parameters. Each field is one call shape
  of bitcoinjs-lib or elliptic; \<open>None\<close> means that the call throws.
  \<^item> \<open>p2pkh_output a n\<close> is \<open>bitcoin.payments.p2pkh({address: a, network: n}).output\<close>,
    and likewise \<open>p2sh_output\<close>, \<open>p2wpkh_output\<close>, \<open>p2wsh_output\<close>, \<open>p2tr_output\<close>;
  \<^item> \<open>p2pkh_address k n\<close> is \<open>bitcoin.payments.p2pkh({pubkey: k, network: n}).address\<close>,
    \<open>p2wpkh_address\<close> likewise, \<open>p2sh_p2wpkh_address k n\<close> is
    \<open>bitcoin.payments.p2sh({redeem: bitcoin.payments.p2wpkh({pubkey: k, network: n}), network: n}).address\<close>
    and \<open>p2tr_address k n\<close> is \<open>bitcoin.payments.p2tr({internalPubkey: k, network: n}).address\<close>;
  \<^item> \<open>toOutputScript a n\<close> is \<open>bitcoin.address.toOutputScript(a, n)\<close>;
  \<^item> \<open>getPublic c k\<close> is \<open>ec.keyFromPublic(Buffer.from(k)).getPublic(c, 'array')\<close> on
    the curve secp256k1.
\<close>

record bitcoinjs =
  p2pkh_output :: "string \<Rightarrow> network \<Rightarrow> buffer option"
  p2sh_output :: "string \<Rightarrow> network \<Rightarrow> buffer option"
  p2wpkh_output :: "string \<Rightarrow> network \<Rightarrow> buffer option"
  p2wsh_output :: "string \<Rightarrow> network \<Rightarrow> buffer option"
  p2tr_output :: "string \<Rightarrow> network \<Rightarrow> buffer option"
  p2pkh_address :: "buffer \<Rightarrow> network \<Rightarrow> string option"
  p2sh_p2wpkh_address :: "buffer \<Rightarrow> network \<Rightarrow> string option"
  p2wpkh_address :: "buffer \<Rightarrow> network \<Rightarrow> string option"
  p2tr_address :: "buffer \<Rightarrow> network \<Rightarrow> string option"
  toOutputScript :: "string \<Rightarrow> network \<Rightarrow> buffer option"
  getPublic :: "bool \<Rightarrow> buffer \<Rightarrow> buffer option"

text \<open>A library call inside a function that does not catch: the exception propagates.\<close>

definition call :: "'a option \<Rightarrow> error + 'a" where
  "call r = (case r of None \<Rightarrow> Inl LibraryError | Some v \<Rightarrow> Inr v)"

section \<open>Address.ts\<close>

text \<open>\<open>address[0] === c\<close>: false on the empty string, where \<open>address[0]\<close> is undefined.\<close>

definition firstIs :: "string \<Rightarrow> char \<Rightarrow> bool" where
  "firstIs address c = (case address of [] \<Rightarrow> False | x # _ \<Rightarrow> x = c)"

definition isP2PKH :: "string \<Rightarrow> bool" where
  "isP2PKH address =
     (if firstIs address CHR ''1'' \<or> firstIs address CHR ''m'' \<or> firstIs address CHR ''n''
      then True else False)"

definition isP2SH :: "string \<Rightarrow> bool" where
  "isP2SH address =
     (if firstIs address CHR ''3'' \<or> firstIs address CHR ''2'' then True else False)"

definition isP2TR :: "string \<Rightarrow> bool" where
  "isP2TR address =
     (if take 4 address = ''bc1p'' \<or> take 4 address = ''tb1p'' then True else False)"

definition convertAdressToScriptPubkey :: "('z bitcoinjs_scheme) \<Rightarrow> string \<Rightarrow> error + buffer" where
  "convertAdressToScriptPubkey lib address =
     (if firstIs address CHR ''1'' \<or> firstIs address CHR ''m'' \<or> firstIs address CHR ''n'' then
        call (p2pkh_output lib address (if firstIs address CHR ''1'' then Bitcoin else Testnet))
      else if firstIs address CHR ''3'' \<or> firstIs address CHR ''2'' then
        call (p2sh_output lib address (if firstIs address CHR ''3'' then Bitcoin else Testnet))
      else if take 4 address = ''bc1q'' \<or> take 4 address = ''tb1q'' then
        (if length address = 42 then
           call (p2wpkh_output lib address (if take 4 address = ''bc1q'' then Bitcoin else Testnet))
         else if length address = 62 then
           call (p2wsh_output lib address (if take 4 address = ''bc1q'' then Bitcoin else Testnet))
         else Inl (Error ''Unknown address type''))
      else if take 4 address = ''bc1p'' \<or> take 4 address = ''tb1p'' then
        (if length address = 62 then
           call (p2tr_output lib address (if take 4 address = ''bc1p'' then Bitcoin else Testnet))
         else Inl (Error ''Unknown address type''))
      else Inl (Error ''Unknown address type''))"

definition isP2WPKH :: "('z bitcoinjs_scheme) \<Rightarrow> string \<Rightarrow> error + bool" where
  "isP2WPKH lib address =
     (if take 4 address = ''bc1q'' \<or> take 4 address = ''tb1q'' then
        (case convertAdressToScriptPubkey lib address of
           Inl e \<Rightarrow> Inl e
         | Inr scriptPubKey \<Rightarrow> if length scriptPubKey = 22 then Inr True else Inr False)
      else Inr False)"

definition isP2WPKHWitness :: "buffer list \<Rightarrow> bool" where
  "isP2WPKHWitness witness =
     (if length witness = 2 \<and> length (witness ! 1) = 33
         \<and> (witness ! 1 ! 0 = 0x02 \<or> witness ! 1 ! 0 = 0x03)
      then True else False)"

definition isSingleKeyP2TRWitness :: "buffer list \<Rightarrow> bool" where
  "isSingleKeyP2TRWitness witness = (if length witness = 1 then True else False)"

text \<open>The object \<open>{ mainnet: ..., testnet: ... }\<close> that \<open>convertPubKeyIntoAddress\<close> returns.\<close>

record addresses =
  mainnet :: string
  testnet :: string

datatype addressType = P2pkh | P2sh_p2wpkh | P2wpkh | P2tr

text \<open>
  The fields of the object literal are evaluated in order, mainnet first; a call that
  throws ends the evaluation. The \<open>default\<close> branch of the switch is excluded by the
  parameter's type.
\<close>

definition both :: "(network \<Rightarrow> string option) \<Rightarrow> error + addresses" where
  "both f =
     (case call (f Bitcoin) of
        Inl e \<Rightarrow> Inl e
      | Inr m \<Rightarrow>
         (case call (f Testnet) of
            Inl e \<Rightarrow> Inl e
          | Inr t \<Rightarrow> Inr \<lparr>mainnet = m, testnet = t\<rparr>))"

definition convertPubKeyIntoAddress ::
    "('z bitcoinjs_scheme) \<Rightarrow> buffer \<Rightarrow> addressType \<Rightarrow> error + addresses" where
  "convertPubKeyIntoAddress lib publicKey addressType =
     (case addressType of
        P2pkh \<Rightarrow> both (p2pkh_address lib publicKey)
      | P2sh_p2wpkh \<Rightarrow> both (p2sh_p2wpkh_address lib publicKey)
      | P2wpkh \<Rightarrow> both (p2wpkh_address lib publicKey)
      | P2tr \<Rightarrow>
          (let internalPubkey =
                 (if length publicKey = 33 then take 32 (drop 1 publicKey) else publicKey)
           in both (p2tr_address lib internalPubkey)))"

text \<open>
  \<open>isValidBitcoinAddress\<close> with the log of its \<open>toOutputScript\<close> calls: each \<open>try\<close> block
  decodes for one network, returns true when the call returns and falls through to the
  next block when it throws.
\<close>

definition isValidBitcoinAddress_log ::
    "('z bitcoinjs_scheme) \<Rightarrow> string \<Rightarrow> network list \<times> bool" where
  "isValidBitcoinAddress_log lib address =
     (case toOutputScript lib address Bitcoin of
        Some _ \<Rightarrow> ([Bitcoin], True)
      | None \<Rightarrow>
         (case toOutputScript lib address Testnet of
            Some _ \<Rightarrow> ([Bitcoin, Testnet], True)
          | None \<Rightarrow>
             (case toOutputScript lib address Regtest of
                Some _ \<Rightarrow> ([Bitcoin, Testnet, Regtest], True)
              | None \<Rightarrow> ([Bitcoin, Testnet, Regtest], False))))"

definition isValidBitcoinAddress :: "('z bitcoinjs_scheme) \<Rightarrow> string \<Rightarrow> bool" where
  "isValidBitcoinAddress lib address = snd (isValidBitcoinAddress_log lib address)"

definition compressPublicKey :: "('z bitcoinjs_scheme) \<Rightarrow> buffer \<Rightarrow> error + buffer" where
  "compressPublicKey lib uncompressedPublicKey =
     (case getPublic lib True uncompressedPublicKey of
        Some compressedPublicKey \<Rightarrow> Inr compressedPublicKey
      | None \<Rightarrow> Inl (Error ''Fails to compress the provided public key. Please check if the provided key is a valid uncompressed public key.''))"

definition uncompressPublicKey :: "('z bitcoinjs_scheme) \<Rightarrow> buffer \<Rightarrow> error + buffer" where
  "uncompressPublicKey lib compressedPublicKey =
     (case getPublic lib False compressedPublicKey of
        Some uncompressedPublicKey \<Rightarrow> Inr uncompressedPublicKey
      | None \<Rightarrow> Inl (Error ''Fails to uncompress the provided public key. Please check if the provided key is a valid compressed public key.''))"

section \<open>Base64 and CompactSize\<close>

text \<open>
  The transport encoding of a signature is base64 (RFC 4648, the standard alphabet, padded
  with \<open>=\<close>), which Node provides (\<open>Buffer.toString('base64')\<close>); it is written out here
  so that the codec below can run. Decoding is strict: a text that is not the encoding of
  a byte sequence has no decoding.
\<close>

definition base64_alphabet :: string where
  "base64_alphabet = ''ABCDEFGHIJKLMNOPQRSTUVWXYZabcdefghijklmnopqrstuvwxyz0123456789+/''"

definition sextet :: "nat \<Rightarrow> char" where
  "sextet i = base64_alphabet ! i"

fun index_of :: "'a list \<Rightarrow> 'a \<Rightarrow> nat option" where
  "index_of [] x = None"
| "index_of (y # ys) x = (if x = y then Some 0 else map_option Suc (index_of ys x))"

definition sextet_value :: "char \<Rightarrow> nat option" where
  "sextet_value c = index_of base64_alphabet c"

fun base64_encode :: "buffer \<Rightarrow> string" where
  "base64_encode [] = []"
| "base64_encode [a] =
     [sextet (unat a div 4), sextet ((unat a mod 4) * 16), CHR ''='', CHR ''='']"
| "base64_encode [a, b] =
     [sextet (unat a div 4), sextet ((unat a mod 4) * 16 + unat b div 16),
      sextet ((unat b mod 16) * 4), CHR ''='']"
| "base64_encode (a # b # c # rest) =
     [sextet (unat a div 4), sextet ((unat a mod 4) * 16 + unat b div 16),
      sextet ((unat b mod 16) * 4 + unat c div 64), sextet (unat c mod 64)]
     @ base64_encode rest"

fun base64_decode :: "string \<Rightarrow> buffer option" where
  "base64_decode [] = Some []"
| "base64_decode (c1 # c2 # c3 # c4 # rest) =
     (case sextet_value c1 of None \<Rightarrow> None | Some v1 \<Rightarrow>
      case sextet_value c2 of None \<Rightarrow> None | Some v2 \<Rightarrow>
        if c3 = CHR ''='' \<and> c4 = CHR ''='' \<and> rest = [] then
          Some [of_nat (v1 * 4 + v2 div 16)]
        else
          (case sextet_value c3 of None \<Rightarrow> None | Some v3 \<Rightarrow>
             if c4 = CHR ''='' \<and> rest = [] then
               Some [of_nat (v1 * 4 + v2 div 16), of_nat ((v2 mod 16) * 16 + v3 div 4)]
             else
               (case sextet_value c4 of None \<Rightarrow> None | Some v4 \<Rightarrow>
                case base64_decode rest of None \<Rightarrow> None | Some bytes \<Rightarrow>
                  Some (of_nat (v1 * 4 + v2 div 16) # of_nat ((v2 mod 16) * 16 + v3 div 4)
                        # of_nat ((v3 mod 4) * 64 + v4) # bytes))))"
| "base64_decode _ = None"

text \<open>
  CompactSize is Bitcoin's variable-length integer: one byte below \<open>0xfd\<close>, otherwise a
  marker byte \<open>0xfd\<close>, \<open>0xfe\<close> or \<open>0xff\<close> followed by the value in 2, 4 or 8 bytes, little
  endian. An encoding is canonical when it is the shortest one.
\<close>

fun le_bytes :: "nat \<Rightarrow> nat \<Rightarrow> buffer" where
  "le_bytes 0 n = []"
| "le_bytes (Suc k) n = of_nat (n mod 256) # le_bytes k (n div 256)"

fun le_value :: "buffer \<Rightarrow> nat" where
  "le_value [] = 0"
| "le_value (b # bs) = unat b + 256 * le_value bs"

definition compactSize :: "nat \<Rightarrow> buffer" where
  "compactSize n =
     (if n < 0xfd then [of_nat n]
      else if n \<le> 0xffff then 0xfd # le_bytes 2 n
      else if n \<le> 0xffffffff then 0xfe # le_bytes 4 n
      else 0xff # le_bytes 8 n)"

definition readFixed :: "nat \<Rightarrow> nat \<Rightarrow> buffer \<Rightarrow> (nat \<times> buffer) option" where
  "readFixed k least bytes =
     (if length bytes < k then None
      else if le_value (take k bytes) < least then None
      else Some (le_value (take k bytes), drop k bytes))"

definition readCompactSize :: "buffer \<Rightarrow> (nat \<times> buffer) option" where
  "readCompactSize bytes =
     (case bytes of
        [] \<Rightarrow> None
      | b # rest \<Rightarrow>
          if b < 0xfd then Some (unat b, rest)
          else if b = 0xfd then readFixed 2 0xfd rest
          else if b = 0xfe then readFixed 4 0x10000 rest
          else readFixed 8 0x100000000 rest)"

section \<open>The witness codec\<close>

text \<open>
  Modelled from the spec: \<open>Witness.serialize\<close> and \<open>Witness.deserialize\<close>; the file
  \<open>helpers/Witness.ts\<close> that holds them is not among the sources (the tests call both).
  Section 4.2: \<open>serialize\<close> emits \<open>CompactSize(count)\<close> followed by, per item,
  \<open>CompactSize(len(item)) \<parallel> item\<close>, then base64-encodes the concatenation;
  \<open>deserialize\<close> base64-decodes, then parses the count and each length-prefixed item in
  sequence, and fails with \<open>MalformedWitness\<close> if the buffer is shorter than a declared
  length, contains a non-canonical CompactSize, or has trailing bytes after the declared
  count is consumed.
\<close>

definition serializeItem :: "buffer \<Rightarrow> buffer" where
  "serializeItem item = compactSize (length item) @ item"

definition serialize :: "buffer list \<Rightarrow> string" where
  "serialize items =
     base64_encode (compactSize (length items) @ concat (map serializeItem items))"

fun readItems :: "nat \<Rightarrow> buffer \<Rightarrow> (buffer list \<times> buffer) option" where
  "readItems 0 bytes = Some ([], bytes)"
| "readItems (Suc count) bytes =
     (case readCompactSize bytes of
        None \<Rightarrow> None
      | Some (len, rest) \<Rightarrow>
          if length rest < len then None
          else (case readItems count (drop len rest) of
                  None \<Rightarrow> None
                | Some (items, remaining) \<Rightarrow> Some (take len rest # items, remaining)))"

definition deserialize :: "string \<Rightarrow> error + buffer list" where
  "deserialize encoded =
     (case base64_decode encoded of
        None \<Rightarrow> Inl MalformedWitness
      | Some bytes \<Rightarrow>
         (case readCompactSize bytes of
            None \<Rightarrow> Inl MalformedWitness
          | Some (count, rest) \<Rightarrow>
             (case readItems count rest of
                None \<Rightarrow> Inl MalformedWitness
              | Some (items, remaining) \<Rightarrow>
                  if remaining = [] then Inr items else Inl MalformedWitness)))"

section \<open>The legacy verifier and \<open>verifySignature\<close>\<close>

text \<open>
  Modelled from the spec: \<open>Verifier.verifySignature\<close> and its legacy (BIP-137) verifier;
  \<open>Verifier.ts\<close> is not among the sources, only its tests are. Section 4.5 gives the
  legacy verifier in six steps:
  \<^enum> reject a signature that is not exactly 65 bytes, or whose header is outside
    \<open>[27, 42]\<close>, with \<open>InvalidSignature\<close>;
  \<^enum> \<open>recId = (header - 27) mod 4\<close>;
  \<^enum> \<open>h = SHA256(SHA256("\x18Bitcoin Signed Message:\n" \<parallel> CompactSize(len(message)) \<parallel> message))\<close>;
  \<^enum> recover the public key from \<open>(h, r, s, recId)\<close> via the curve provider, failing
    with \<open>RecoveryFailed\<close>;
  \<^enum> derive the P2PKH addresses of the compressed and of the uncompressed key and the
    P2SH-P2WPKH, P2WPKH and P2TR addresses of the compressed key, each for mainnet and
    testnet;
  \<^enum> return true iff the supplied address is one of them.

  Step 5 is written with \<open>compressPublicKey\<close>, \<open>uncompressPublicKey\<close> and
  \<open>convertPubKeyIntoAddress\<close> of \<open>Address.ts\<close>. SHA-256 and the recovery are
  collaborators, the fields \<open>sha256\<close> and \<open>recoverPublicKey\<close> (\<open>None\<close>: recovery fails).

  \<open>verifySignature\<close> (sections 2, 6 and 8) rejects an address that
  \<open>isValidBitcoinAddress\<close> refuses with \<open>InvalidAddress\<close>, for every kind of signature,
  and then branches to the legacy or to the BIP-322 verifier. The branch follows the two
  forms of a signature in section 3: a legacy signature is 65 raw bytes, base64-wrapped,
  and goes to the legacy verifier whatever the type of the address (section 8: one legacy
  signature verifies against the P2PKH, P2SH-P2WPKH, P2WPKH and P2TR addresses of its
  key); any other text is a serialized witness stack and goes to the BIP-322 verifier,
  except for a P2PKH address, which section 4.6 does not cover and whose signatures the
  legacy verifier judges (its step 1 rejects the lengths other than 65). The header byte
  takes no part in the branch (section 3: the base flag is informational only and never
  trusted). A text that is no base64 holds no 65 bytes and is rejected as step 1 rejects.
  The BIP-322 verifier of section 4.6 is not modelled: it is the field \<open>verifyBIP322\<close>.
\<close>

record environment = bitcoinjs +
  sha256 :: "buffer \<Rightarrow> buffer"
  recoverPublicKey :: "buffer \<Rightarrow> buffer \<Rightarrow> buffer \<Rightarrow> nat \<Rightarrow> buffer option"
  verifyBIP322 :: "string \<Rightarrow> buffer \<Rightarrow> string \<Rightarrow> error + bool"

definition andThen :: "error + 'a \<Rightarrow> ('a \<Rightarrow> error + 'b) \<Rightarrow> error + 'b" where
  "andThen r f = (case r of Inl e \<Rightarrow> Inl e | Inr v \<Rightarrow> f v)"

definition derivedAddresses :: "('z bitcoinjs_scheme) \<Rightarrow> buffer \<Rightarrow> error + string list" where
  "derivedAddresses lib key =
     andThen (compressPublicKey lib key) (\<lambda>compressed.
     andThen (uncompressPublicKey lib key) (\<lambda>uncompressed.
     andThen (convertPubKeyIntoAddress lib compressed P2pkh) (\<lambda>p2pkhCompressed.
     andThen (convertPubKeyIntoAddress lib uncompressed P2pkh) (\<lambda>p2pkhUncompressed.
     andThen (convertPubKeyIntoAddress lib compressed P2sh_p2wpkh) (\<lambda>p2sh.
     andThen (convertPubKeyIntoAddress lib compressed P2wpkh) (\<lambda>p2wpkh.
     andThen (convertPubKeyIntoAddress lib compressed P2tr) (\<lambda>p2tr.
       Inr [mainnet p2pkhCompressed, testnet p2pkhCompressed,
            mainnet p2pkhUncompressed, testnet p2pkhUncompressed,
            mainnet p2sh, testnet p2sh, mainnet p2wpkh, testnet p2wpkh,
            mainnet p2tr, testnet p2tr])))))))"

definition magicPrefix :: buffer where
  "magicPrefix = 0x18 # map of_char ''Bitcoin Signed Message:'' @ [0x0a]"

definition messageHash :: "('z environment_scheme) \<Rightarrow> buffer \<Rightarrow> buffer" where
  "messageHash env message =
     sha256 env (sha256 env (magicPrefix @ compactSize (length message) @ message))"

definition verifyLegacy ::
    "('z environment_scheme) \<Rightarrow> string \<Rightarrow> buffer \<Rightarrow> buffer \<Rightarrow> error + bool" where
  "verifyLegacy env address message signature =
     (if length signature \<noteq> 65 then Inl InvalidSignature
      else
        (let header = unat (signature ! 0) in
         if header < 27 \<or> 42 < header then Inl InvalidSignature
         else
           (let recId = (header - 27) mod 4;
                r = take 32 (drop 1 signature);
                s = take 32 (drop 33 signature)
            in case recoverPublicKey env (messageHash env message) r s recId of
                 None \<Rightarrow> Inl RecoveryFailed
               | Some key \<Rightarrow>
                   (case derivedAddresses env key of
                      Inl e \<Rightarrow> Inl e
                    | Inr derived \<Rightarrow> Inr (address \<in> set derived)))))"

definition isLegacySignature :: "string \<Rightarrow> bool" where
  "isLegacySignature signatureBase64 =
     (case base64_decode signatureBase64 of
        None \<Rightarrow> False
      | Some signature \<Rightarrow> length signature = 65)"

definition verifySignature ::
    "('z environment_scheme) \<Rightarrow> string \<Rightarrow> buffer \<Rightarrow> string \<Rightarrow> error + bool" where
  "verifySignature env address message signatureBase64 =
     (if \<not> isValidBitcoinAddress env address then Inl InvalidAddress
      else if isP2PKH address \<or> isLegacySignature signatureBase64 then
        (case base64_decode signatureBase64 of
           None \<Rightarrow> Inl InvalidSignature
         | Some signature \<Rightarrow> verifyLegacy env address message signature)
      else verifyBIP322 env address message signatureBase64)"

section \<open>An instance of the collaborators\<close>

text \<open>
  A small instance on which the theorems below are run. It decodes one P2WPKH address on
  mainnet and accepts the string \<open>tb1q\<close> on testnet only; every key has the same ten
  addresses; the strings \<open>bc1ptaproot\<close> and \<open>1unrelated\<close> are accepted on mainnet;
  recovery succeeds for recovery id 1 alone.
\<close>

definition example_env :: environment where
  "example_env =
     \<lparr> p2pkh_output = (\<lambda>a n. None),
       p2sh_output = (\<lambda>a n. None),
       p2wpkh_output =
         (\<lambda>a n. if a = ''bc1q9vza2e8x573nczrlzms0wvx3gsqjx7vavgkx0l'' \<and> n = Bitcoin
                then Some (0x00 # 0x14 # replicate 20 0x2b) else None),
       p2wsh_output = (\<lambda>a n. None),
       p2tr_output = (\<lambda>a n. None),
       p2pkh_address =
         (\<lambda>k n. Some ((if n = Bitcoin then ''1'' else ''m'')
                      @ (if length k = 33 then ''compressed'' else ''uncompressed''))),
       p2sh_p2wpkh_address = (\<lambda>k n. Some (if n = Bitcoin then ''3nested'' else ''2nested'')),
       p2wpkh_address = (\<lambda>k n. Some (if n = Bitcoin then ''bc1qnative'' else ''tb1qnative'')),
       p2tr_address = (\<lambda>k n. Some (if n = Bitcoin then ''bc1ptaproot'' else ''tb1ptaproot'')),
       toOutputScript =
         (\<lambda>a n. if a = ''tb1q'' \<and> n = Testnet
                   \<or> (a = ''bc1ptaproot'' \<or> a = ''1unrelated'') \<and> n = Bitcoin
                then Some [] else None),
       getPublic = (\<lambda>c k. Some (if c then replicate 33 0x02 else replicate 65 0x04)),
       sha256 = (\<lambda>b. take 32 (b @ replicate 32 0x00)),
       recoverPublicKey = (\<lambda>h r s recId. if recId = 1 then Some (replicate 33 0x02) else None),
       verifyBIP322 = (\<lambda>a m s. Inl MalformedWitness) \<rparr>"

section \<open>Properties of Address.ts\<close>

lemma firstIs_take: "firstIs a c \<longleftrightarrow> take 1 a = [c]"
  by (cases a) (auto simp: firstIs_def)

lemma isP2WPKHWitness_shape:
  "isP2WPKHWitness witness \<longleftrightarrow>
     (\<exists>sig b rest. witness = [sig, b # rest] \<and> length rest = 32 \<and> (b = 0x02 \<or> b = 0x03))"
proof (cases witness)
  case Nil
  then show ?thesis by (simp add: isP2WPKHWitness_def)
next
  case outer: (Cons sig items)
  show ?thesis
  proof (cases items)
    case Nil
    with outer show ?thesis by (simp add: isP2WPKHWitness_def)
  next
    case second: (Cons key more)
    show ?thesis
    proof (cases more)
      case Nil
      with outer second show ?thesis
        by (cases key) (auto simp add: isP2WPKHWitness_def)
    next
      case (Cons third others)
      with outer second show ?thesis by (simp add: isP2WPKHWitness_def)
    qed
  qed
qed

lemma isSingleKeyP2TRWitness_shape:
  "isSingleKeyP2TRWitness witness \<longleftrightarrow> (\<exists>sig. witness = [sig])"
  by (cases witness) (auto simp: isSingleKeyP2TRWitness_def)

text \<open>
  C8. \<open>isP2WPKHWitness\<close> is true exactly of the stacks of two items whose second item has
  33 bytes and starts with \<open>0x02\<close> or \<open>0x03\<close>, and \<open>isSingleKeyP2TRWitness\<close> exactly of
  the stacks of one item; replacing the first item by any other buffer changes neither
  result.
\<close>

theorem witness_shape_predicates:
  "(isP2WPKHWitness witness \<longleftrightarrow>
      length witness = 2 \<and> length (witness ! 1) = 33
      \<and> (hd (witness ! 1) = 0x02 \<or> hd (witness ! 1) = 0x03))
   \<and> (isSingleKeyP2TRWitness witness \<longleftrightarrow> length witness = 1)
   \<and> isP2WPKHWitness (first # others) = isP2WPKHWitness (first' # others)
   \<and> isSingleKeyP2TRWitness (first # others) = isSingleKeyP2TRWitness (first' # others)"
proof -
  have shape: "(\<exists>sig b rest. witness = [sig, b # rest] \<and> length rest = 32 \<and> (b = 0x02 \<or> b = 0x03))
      \<longleftrightarrow> length witness = 2 \<and> length (witness ! 1) = 33
        \<and> (hd (witness ! 1) = 0x02 \<or> hd (witness ! 1) = 0x03)" (is "?L \<longleftrightarrow> ?R")
  proof
    assume ?L
    then show ?R by auto
  next
    assume r: ?R
    then obtain sig key where w: "witness = [sig, key]"
      by (cases witness; cases "tl witness"; cases "tl (tl witness)") auto
    with r obtain b rest where "key = b # rest" by (cases key) auto
    with r w show ?L by auto
  qed
  have "isP2WPKHWitness (first # others) = isP2WPKHWitness (first' # others)"
    unfolding isP2WPKHWitness_shape by simp
  moreover have "isSingleKeyP2TRWitness (first # others) = isSingleKeyP2TRWitness (first' # others)"
    unfolding isSingleKeyP2TRWitness_shape by simp
  moreover have "isSingleKeyP2TRWitness witness \<longleftrightarrow> length witness = 1"
    by (simp add: isSingleKeyP2TRWitness_def)
  ultimately show ?thesis
    using isP2WPKHWitness_shape [of witness] shape by simp
qed

theorem witness_shape_predicates_witness:
  "isP2WPKHWitness [[0x30, 0x01], 0x03 # replicate 32 0x11]
   \<and> \<not> isP2WPKHWitness [[0x30, 0x01], 0x04 # replicate 32 0x11]
   \<and> \<not> isP2WPKHWitness [0x03 # replicate 32 0x11]
   \<and> isSingleKeyP2TRWitness [[]]
   \<and> \<not> isSingleKeyP2TRWitness [[0x01], [0x02]]"
  using witness_shape_predicates [of "[[0x30, 0x01], 0x03 # replicate 32 0x11]" "[]" "[]" "[]"]
    witness_shape_predicates [of "[[0x30, 0x01], 0x04 # replicate 32 0x11]" "[]" "[]" "[]"]
    witness_shape_predicates [of "[0x03 # replicate 32 0x11]" "[]" "[]" "[]"]
    witness_shape_predicates [of "[[]]" "[]" "[]" "[]"]
    witness_shape_predicates [of "[[0x01], [0x02]]" "[]" "[]" "[]"]
  by simp

text \<open>
  C9. \<open>isValidBitcoinAddress\<close> calls \<open>toOutputScript\<close> for mainnet, then testnet, then
  regtest: its log of calls is an initial part of that sequence, every call before the
  last one threw, and the result says whether the last call returned. So it returns true
  at the first network that decodes and false exactly when none of the three does. The
  result is a boolean for every input: each exception is caught.
\<close>

theorem isValidBitcoinAddress_order:
  "\<exists>log. isValidBitcoinAddress_log lib address = (log, isValidBitcoinAddress lib address)
     \<and> (log = [Bitcoin] \<or> log = [Bitcoin, Testnet] \<or> log = [Bitcoin, Testnet, Regtest])
     \<and> (\<forall>n \<in> set (butlast log). toOutputScript lib address n = None)
     \<and> (isValidBitcoinAddress lib address \<longleftrightarrow> toOutputScript lib address (last log) \<noteq> None)
     \<and> (isValidBitcoinAddress lib address \<longleftrightarrow> (\<exists>n. toOutputScript lib address n \<noteq> None))"
proof -
  have some_network: "(\<exists>n. toOutputScript lib address n \<noteq> None) \<longleftrightarrow>
      toOutputScript lib address Bitcoin \<noteq> None \<or> toOutputScript lib address Testnet \<noteq> None
        \<or> toOutputScript lib address Regtest \<noteq> None" (is "?L \<longleftrightarrow> ?R")
  proof
    assume ?L
    then obtain n where "toOutputScript lib address n \<noteq> None" ..
    then show ?R by (cases n) auto
  qed blast
  show ?thesis
    unfolding some_network
    by (simp add: isValidBitcoinAddress_def isValidBitcoinAddress_log_def split: option.split)
qed

theorem isValidBitcoinAddress_order_witness:
  "isValidBitcoinAddress_log example_env ''tb1q'' = ([Bitcoin, Testnet], True)
   \<and> isValidBitcoinAddress example_env ''tb1q''
   \<and> toOutputScript example_env ''tb1q'' Bitcoin = None
   \<and> \<not> isValidBitcoinAddress example_env ''bc1q''"
  using isValidBitcoinAddress_order [of example_env "''tb1q''"]
    isValidBitcoinAddress_order [of example_env "''bc1q''"]
  by (simp add: isValidBitcoinAddress_def isValidBitcoinAddress_log_def example_env_def)

text \<open>
  C10. On a string that starts with \<open>bc1q\<close> or \<open>tb1q\<close>, \<open>isP2WPKH\<close> throws whatever
  \<open>convertAdressToScriptPubkey\<close> throws, and that function throws exactly when the
  length is neither 42 nor 62 (\<open>Unknown address type\<close>) or when the bech32 decoding of
  bitcoinjs-lib throws. \<open>isP2PKH\<close>, \<open>isP2SH\<close> and \<open>isP2TR\<close> are booleans decided by the
  first character or the first four characters alone.
\<close>

theorem isP2WPKH_throws:
  assumes "take 4 address = ''bc1q'' \<or> take 4 address = ''tb1q''"
  shows "(convertAdressToScriptPubkey lib address = Inl e \<longrightarrow> isP2WPKH lib address = Inl e)
    \<and> (convertAdressToScriptPubkey lib address = Inl e \<longleftrightarrow>
         (length address \<noteq> 42 \<and> length address \<noteq> 62 \<and> e = Error ''Unknown address type'')
       \<or> (length address = 42 \<and> e = LibraryError
            \<and> p2wpkh_output lib address (if take 4 address = ''bc1q'' then Bitcoin else Testnet) = None)
       \<or> (length address = 62 \<and> e = LibraryError
            \<and> p2wsh_output lib address (if take 4 address = ''bc1q'' then Bitcoin else Testnet) = None))
    \<and> (isP2PKH other \<longleftrightarrow> take 1 other \<in> {''1'', ''m'', ''n''})
    \<and> (isP2SH other \<longleftrightarrow> take 1 other \<in> {''3'', ''2''})
    \<and> (isP2TR other \<longleftrightarrow> take 4 other \<in> {''bc1p'', ''tb1p''})"
proof -
  have other_first: "\<not> firstIs address c" if "c \<noteq> CHR ''b''" "c \<noteq> CHR ''t''" for c
    using assms that by (cases address) (auto simp: firstIs_def)
  have segwit_branch: "convertAdressToScriptPubkey lib address =
     (if length address = 42 then
        call (p2wpkh_output lib address (if take 4 address = ''bc1q'' then Bitcoin else Testnet))
      else if length address = 62 then
        call (p2wsh_output lib address (if take 4 address = ''bc1q'' then Bitcoin else Testnet))
      else Inl (Error ''Unknown address type''))"
    using assms by (simp add: convertAdressToScriptPubkey_def other_first)
  have propagated: "convertAdressToScriptPubkey lib address = Inl e \<longrightarrow> isP2WPKH lib address = Inl e"
    using assms by (simp add: isP2WPKH_def)
  have causes: "convertAdressToScriptPubkey lib address = Inl e \<longleftrightarrow>
         (length address \<noteq> 42 \<and> length address \<noteq> 62 \<and> e = Error ''Unknown address type'')
       \<or> (length address = 42 \<and> e = LibraryError
            \<and> p2wpkh_output lib address (if take 4 address = ''bc1q'' then Bitcoin else Testnet) = None)
       \<or> (length address = 62 \<and> e = LibraryError
            \<and> p2wsh_output lib address (if take 4 address = ''bc1q'' then Bitcoin else Testnet) = None)"
    unfolding segwit_branch by (auto simp: call_def split: option.splits)
  have p2pkh: "isP2PKH other \<longleftrightarrow> take 1 other \<in> {''1'', ''m'', ''n''}"
    by (simp add: isP2PKH_def firstIs_take)
  have p2sh: "isP2SH other \<longleftrightarrow> take 1 other \<in> {''3'', ''2''}"
    by (simp add: isP2SH_def firstIs_take)
  have p2tr: "isP2TR other \<longleftrightarrow> take 4 other \<in> {''bc1p'', ''tb1p''}"
    by (simp add: isP2TR_def)
  from propagated causes p2pkh p2sh p2tr show ?thesis by blast
qed

theorem isP2WPKH_throws_witness:
  "isP2WPKH example_env ''bc1qxyz'' = Inl (Error ''Unknown address type'')
   \<and> isP2WPKH example_env ''tb1qw508d6qejxtdg4y5r3zarvary0c5xw7kxpjzsx'' = Inl LibraryError
   \<and> isP2WPKH example_env ''bc1q9vza2e8x573nczrlzms0wvx3gsqjx7vavgkx0l'' = Inr True
   \<and> \<not> isP2TR ''bc1qxyz'' \<and> \<not> isP2PKH ''bc1qxyz''"
  using isP2WPKH_throws [of "''bc1qxyz''" example_env "Error ''Unknown address type''" "''bc1qxyz''"]
    isP2WPKH_throws [of "''tb1qw508d6qejxtdg4y5r3zarvary0c5xw7kxpjzsx''" example_env LibraryError "''bc1qxyz''"]
  by (simp add: isP2WPKH_def convertAdressToScriptPubkey_def firstIs_def call_def example_env_def)

section \<open>Properties of base64 and CompactSize\<close>

lemma index_of_nth:
  "distinct xs \<Longrightarrow> i < length xs \<Longrightarrow> index_of xs (xs ! i) = Some i"
proof (induction xs arbitrary: i)
  case Nil
  then show ?case by simp
next
  case (Cons x xs)
  show ?case
  proof (cases i)
    case 0
    then show ?thesis by simp
  next
    case (Suc j)
    with Cons.prems have "j < length xs" "xs ! j \<noteq> x" by auto
    with Cons.IH [of j] Cons.prems Suc show ?thesis by simp
  qed
qed

lemma sextet_value_sextet: "i < 64 \<Longrightarrow> sextet_value (sextet i) = Some i"
  unfolding sextet_value_def sextet_def
  by (rule index_of_nth) (simp_all add: base64_alphabet_def)

lemma sextet_not_pad: "i < 64 \<Longrightarrow> sextet i \<noteq> CHR ''=''"
proof -
  assume "i < 64"
  then have "sextet i \<in> set base64_alphabet"
    unfolding sextet_def by (intro nth_mem) (simp add: base64_alphabet_def)
  moreover have "CHR ''='' \<notin> set base64_alphabet"
    by (simp add: base64_alphabet_def)
  ultimately show ?thesis by metis
qed

lemma unat_byte_less: "unat (a :: byte) < 256"
  using unsigned_less [of a, where ?'a = nat] by simp

lemma sextet_bounds:
  fixes a b c :: byte
  shows "unat a div 4 < 64" "(unat a mod 4) * 16 < 64"
    "(unat a mod 4) * 16 + unat b div 16 < 64"
    "(unat b mod 16) * 4 < 64" "(unat b mod 16) * 4 + unat c div 64 < 64" "unat c mod 64 < 64"
  using unat_byte_less [of a] unat_byte_less [of b] unat_byte_less [of c] by arith+

lemma high_low:
  fixes x y z :: nat
  assumes "y < 256" "z < 256"
  shows "(x mod 4 * 16 + y div 16) div 16 = x mod 4"
    and "(x mod 4 * 16 + y div 16) mod 16 = y div 16"
    and "(y mod 16 * 4 + z div 64) div 4 = y mod 16"
    and "(y mod 16 * 4 + z div 64) mod 4 = z div 64"
  using assms by (simp_all add: less_mult_imp_div_less)

lemma first_byte: "of_nat (unat a div 4 * 4 + (unat a mod 4 * 16 + unat b div 16) div 16) = a"
  for a b :: byte
proof -
  have "unat a div 4 * 4 + (unat a mod 4 * 16 + unat b div 16) div 16 = unat a"
    using high_low(1) [where y = "unat b" and z = 0 and x = "unat a"] unat_byte_less [of b] by simp
  then show ?thesis by simp
qed

lemma first_byte_padded: "of_nat (unat a div 4 * 4 + (unat a mod 4 * 16) div 16) = a"
  for a :: byte
proof -
  have "unat a div 4 * 4 + (unat a mod 4 * 16) div 16 = unat a" by simp
  then show ?thesis by simp
qed

lemma second_byte:
  "of_nat ((unat a mod 4 * 16 + unat b div 16) mod 16 * 16 + (unat b mod 16 * 4 + unat c div 64) div 4) = b"
  for a b c :: byte
proof -
  have "(unat a mod 4 * 16 + unat b div 16) mod 16 * 16 + (unat b mod 16 * 4 + unat c div 64) div 4 = unat b"
    using high_low(2) [where y = "unat b" and z = 0 and x = "unat a"] high_low(3) [where y = "unat b" and z = "unat c"]
      unat_byte_less [of b] unat_byte_less [of c] by simp
  then show ?thesis by simp
qed

lemma second_byte_padded:
  "of_nat ((unat a mod 4 * 16 + unat b div 16) mod 16 * 16 + (unat b mod 16 * 4) div 4) = b"
  for a b :: byte
proof -
  have "(unat a mod 4 * 16 + unat b div 16) mod 16 * 16 + (unat b mod 16 * 4) div 4 = unat b"
    using high_low(2) [where y = "unat b" and z = 0 and x = "unat a"] unat_byte_less [of b] by simp
  then show ?thesis by simp
qed

lemma third_byte:
  "of_nat ((unat b mod 16 * 4 + unat c div 64) mod 4 * 64 + unat c mod 64) = c"
  for b c :: byte
proof -
  have "(unat b mod 16 * 4 + unat c div 64) mod 4 * 64 + unat c mod 64 = unat c"
    using high_low(4) [where y = "unat b" and z = "unat c"] unat_byte_less [of c] by simp
  then show ?thesis by simp
qed

lemma base64_roundtrip: "base64_decode (base64_encode bytes) = Some bytes"
proof (induction bytes rule: base64_encode.induct)
  case 1
  show ?case by simp
next
  case (2 a)
  show ?case
    by (simp add: sextet_value_sextet sextet_bounds first_byte_padded)
next
  case (3 a b)
  show ?case
    by (simp only: base64_encode.simps base64_decode.simps sextet_value_sextet sextet_bounds
        sextet_not_pad option.case first_byte second_byte_padded simp_thms if_True if_False)
next
  case (4 a b c rest)
  then show ?case
    by (simp only: base64_encode.simps base64_decode.simps append.simps sextet_value_sextet
        sextet_bounds sextet_not_pad option.case first_byte second_byte third_byte simp_thms
        if_False)
qed

section \<open>Properties of the witness codec\<close>

lemma length_le_bytes: "length (le_bytes k n) = k"
  by (induction k arbitrary: n) simp_all

lemma unat_of_nat_byte: "unat (of_nat n :: byte) = n mod 256"
  by (simp add: unat_of_nat)

lemma le_value_le_bytes: "le_value (le_bytes k n) = n mod 256 ^ k"
proof (induction k arbitrary: n)
  case 0
  show ?case by simp
next
  case (Suc k)
  have "le_value (le_bytes (Suc k) n) = n mod 256 + 256 * ((n div 256) mod 256 ^ k)"
    by (simp add: Suc unat_of_nat_byte)
  also have "\<dots> = n mod (256 * 256 ^ k)"
    by (simp add: mod_mult2_eq)
  finally show ?case by simp
qed

lemma readFixed_le_bytes:
  assumes "least \<le> n" "n < 256 ^ k"
  shows "readFixed k least (le_bytes k n @ rest) = Some (n, rest)"
  using assms by (simp add: readFixed_def length_le_bytes le_value_le_bytes)

lemma readCompactSize_compactSize:
  assumes "n < 2 ^ 64"
  shows "readCompactSize (compactSize n @ rest) = Some (n, rest)"
proof -
  consider "n < 0xfd" | "0xfd \<le> n" "n \<le> 0xffff" | "0xffff < n" "n \<le> 0xffffffff" | "0xffffffff < n"
    by linarith
  then show ?thesis
  proof cases
    case 1
    then have "unat (of_nat n :: byte) = n" by (simp add: unat_of_nat_byte)
    moreover from 1 have "(of_nat n :: byte) < 0xfd"
      by (simp add: word_less_nat_alt unat_of_nat_byte)
    ultimately show ?thesis using 1 by (simp add: readCompactSize_def compactSize_def)
  next
    case 2
    then have "readFixed 2 0xfd (le_bytes 2 n @ rest) = Some (n, rest)"
      by (intro readFixed_le_bytes) simp_all
    with 2 show ?thesis by (simp add: readCompactSize_def compactSize_def)
  next
    case 3
    then have "readFixed 4 0x10000 (le_bytes 4 n @ rest) = Some (n, rest)"
      by (intro readFixed_le_bytes) simp_all
    with 3 show ?thesis by (simp add: readCompactSize_def compactSize_def)
  next
    case 4
    with assms have "readFixed 8 0x100000000 (le_bytes 8 n @ rest) = Some (n, rest)"
      by (intro readFixed_le_bytes) simp_all
    with 4 show ?thesis by (simp add: readCompactSize_def compactSize_def)
  qed
qed

lemma readItems_serialized:
  assumes "\<forall>item \<in> set items. length item < 2 ^ 64"
  shows "readItems (length items) (concat (map serializeItem items) @ rest) = Some (items, rest)"
  using assms
proof (induction items)
  case Nil
  show ?case by simp
next
  case (Cons item items)
  then have "readCompactSize (compactSize (length item) @ tail) = Some (length item, tail)" for tail
    by (intro readCompactSize_compactSize) simp
  with Cons show ?case by (simp add: serializeItem_def)
qed

text \<open>
  C7. Deserializing the serialization of a witness stack gives the stack back, the empty
  stack included. CompactSize holds values below \<open>2 ^ 64\<close>, so the count and each
  item's length are below it, as the lengths of every array and \<open>Buffer\<close> are.
\<close>

theorem deserialize_serialize:
  assumes "length items < 2 ^ 64" "\<forall>item \<in> set items. length item < 2 ^ 64"
  shows "deserialize (serialize items) = Inr items"
proof -
  have "readCompactSize (compactSize (length items) @ concat (map serializeItem items))
      = Some (length items, concat (map serializeItem items))"
    using assms(1) by (rule readCompactSize_compactSize)
  moreover have "readItems (length items) (concat (map serializeItem items)) = Some (items, [])"
    using readItems_serialized [OF assms(2), of "[]"] by simp
  ultimately show ?thesis
    by (simp add: deserialize_def serialize_def base64_roundtrip)
qed

text \<open>
  The signature of the test \<open>Reject Schnorr signature with incorrect length\<close>: the
  published P2TR vector decodes to one item of 65 bytes that ends in \<open>0x01\<close>.
\<close>

lemma p2tr_vector_decodes:
  "deserialize ''AUHd69PrJQEv+oKTfZ8l+WROBHuy9HKrbFCJu7U1iK2iiEy1vMU5EfMtjc+VSHM7aU0SDbak5IUZRVno2P5mjSafAQ==''
   = Inr [[221, 235, 211, 235, 37, 1, 47, 250, 130, 147, 125, 159, 37, 249, 100,
       78, 4, 123, 178, 244, 114, 171, 108, 80, 137, 187, 181, 53, 136, 173,
       162, 136, 76, 181, 188, 197, 57, 17, 243, 45, 141, 207, 149, 72, 115,
       59, 105, 77, 18, 13, 182, 164, 228, 133, 25, 69, 89, 232, 216, 254,
       102, 141, 38, 159, 1]]"
  by code_simp

theorem deserialize_serialize_witness:
  "deserialize (serialize []) = Inr []
   \<and> deserialize (serialize [[0x30, 0x44, 0x01], [], [0x02]]) = Inr [[0x30, 0x44, 0x01], [], [0x02]]
   \<and> serialize [[0x30, 0x44, 0x01], [], [0x02]] = ''AwMwRAEAAQI=''
   \<and> deserialize (serialize [replicate 64 0xdd @ [0x01, 0xff]]) = Inr [replicate 64 0xdd @ [0x01, 0xff]]"
  using deserialize_serialize [of "[]"]
    deserialize_serialize [of "[[0x30, 0x44, 0x01], [], [0x02]]"]
    deserialize_serialize [of "[replicate 64 0xdd @ [0x01, 0xff]]"]
  by (simp add: serialize_def serializeItem_def compactSize_def sextet_def base64_alphabet_def)

section \<open>Properties of the legacy verifier\<close>

lemma recId_class:
  fixes h h0 :: nat
  assumes "27 \<le> h0" "27 \<le> h" "(int h - int h0) mod 4 = 0"
  shows "(h - 27) mod 4 = (h0 - 27) mod 4"
proof -
  have "4 dvd (int h - 27) - (int h0 - 27)"
    using assms(3) by (simp add: dvd_eq_mod_eq_0)
  then have "(int h - 27) mod 4 = (int h0 - 27) mod 4"
    by (simp only: mod_eq_dvd_iff)
  moreover have "int ((h - 27) mod 4) = (int h - 27) mod 4"
    using assms(2) by (simp add: zmod_int of_nat_diff)
  moreover have "int ((h0 - 27) mod 4) = (int h0 - 27) mod 4"
    using assms(1) by (simp add: zmod_int of_nat_diff)
  ultimately have "int ((h - 27) mod 4) = int ((h0 - 27) mod 4)"
    by simp
  then show ?thesis by (simp only: of_nat_eq_iff)
qed

lemma verifyLegacy_header:
  fixes h h0 :: byte
  assumes "27 \<le> unat h0" "unat h0 \<le> 42" "27 \<le> unat h" "unat h \<le> 42"
    and "(unat h - 27) mod 4 = (unat h0 - 27) mod 4"
  shows "verifyLegacy env address message (h # rs) = verifyLegacy env address message (h0 # rs)"
proof -
  have tail: "drop 33 (b # rs) = drop 32 rs" for b :: byte
    by (simp add: drop_Cons')
  have range: "\<not> (unat h < 27 \<or> 42 < unat h)" "\<not> (unat h0 < 27 \<or> 42 < unat h0)"
    using assms(1-4) by auto
  show ?thesis
    unfolding verifyLegacy_def Let_def
    by (simp only: nth_Cons_0 drop_Suc_Cons One_nat_def drop_0 list.size tail range assms(5) if_False)
qed

text \<open>
  C3. Two legacy signatures of 65 bytes that differ in the header byte alone, both headers
  in \<open>[27, 42]\<close> and their difference a multiple of 4, get the same result from
  \<open>verifySignature\<close>, for every address and every message: the same boolean or the same
  failure.
\<close>

theorem legacy_header_class:
  fixes h h0 :: byte
  assumes "27 \<le> unat h0" "unat h0 \<le> 42" "27 \<le> unat h" "unat h \<le> 42"
    and "(int (unat h) - int (unat h0)) mod 4 = 0"
    and "length rs = 64"
  shows "verifySignature env address message (base64_encode (h # rs))
       = verifySignature env address message (base64_encode (h0 # rs))"
proof -
  have "(unat h - 27) mod 4 = (unat h0 - 27) mod 4"
    using assms(1,3,5) by (rule recId_class)
  with assms(1-4)
  have "verifyLegacy env address message (h # rs) = verifyLegacy env address message (h0 # rs)"
    by (rule verifyLegacy_header)
  moreover have "isLegacySignature (base64_encode (b # rs))" for b
    using assms(6) by (simp add: isLegacySignature_def base64_roundtrip)
  ultimately show ?thesis
    unfolding verifySignature_def
    by (simp only: base64_roundtrip option.case simp_thms if_True)
qed

theorem legacy_header_class_witness:
  "verifySignature example_env ''bc1ptaproot'' [] (base64_encode (28 # replicate 64 0x11))
     = verifySignature example_env ''bc1ptaproot'' [] (base64_encode (32 # replicate 64 0x11))
   \<and> verifySignature example_env ''bc1ptaproot'' [] (base64_encode (32 # replicate 64 0x11)) = Inr True
   \<and> verifySignature example_env ''1unrelated'' [] (base64_encode (28 # replicate 64 0x11))
     = verifySignature example_env ''1unrelated'' [] (base64_encode (32 # replicate 64 0x11))
   \<and> verifySignature example_env ''1unrelated'' [] (base64_encode (32 # replicate 64 0x11)) = Inr False
   \<and> verifySignature example_env ''bc1ptaproot'' [] (base64_encode (33 # replicate 64 0x11))
     = Inl RecoveryFailed"
proof -
  have valid: "isValidBitcoinAddress example_env ''bc1ptaproot''"
    "isValidBitcoinAddress example_env ''1unrelated''"
    by (simp_all add: isValidBitcoinAddress_def isValidBitcoinAddress_log_def example_env_def)
  have legacy: "isLegacySignature (base64_encode (b # replicate 64 0x11))" for b
    by (simp add: isLegacySignature_def base64_roundtrip)
  have related: "verifyLegacy example_env ''bc1ptaproot'' [] (32 # replicate 64 0x11) = Inr True"
    by (simp add: verifyLegacy_def Let_def example_env_def derivedAddresses_def andThen_def
      compressPublicKey_def uncompressPublicKey_def convertPubKeyIntoAddress_def both_def call_def)
  have unrelated: "verifyLegacy example_env ''1unrelated'' [] (32 # replicate 64 0x11) = Inr False"
    by (simp add: verifyLegacy_def Let_def example_env_def derivedAddresses_def andThen_def
      compressPublicKey_def uncompressPublicKey_def convertPubKeyIntoAddress_def both_def call_def)
  have other_class: "verifyLegacy example_env ''bc1ptaproot'' [] (33 # replicate 64 0x11) = Inl RecoveryFailed"
    by (simp add: verifyLegacy_def Let_def example_env_def)
  show ?thesis
    using legacy_header_class [of 32 28 "replicate 64 0x11" example_env "''bc1ptaproot''" "[]"]
      legacy_header_class [of 32 28 "replicate 64 0x11" example_env "''1unrelated''" "[]"]
    by (simp add: legacy valid related unrelated other_class verifySignature_def base64_roundtrip)
qed

lemma both_Some:
  assumes "f Bitcoin = Some m" "f Testnet = Some t"
  shows "both f = Inr \<lparr>mainnet = m, testnet = t\<rparr>"
  using assms by (simp add: both_def call_def)

lemma derivedAddresses_list:
  assumes forms: "getPublic lib True key = Some compressed" "getPublic lib False key = Some uncompressed"
    and p2pkhC: "p2pkh_address lib compressed Bitcoin = Some c1" "p2pkh_address lib compressed Testnet = Some c2"
    and p2pkhU: "p2pkh_address lib uncompressed Bitcoin = Some u1" "p2pkh_address lib uncompressed Testnet = Some u2"
    and p2sh: "p2sh_p2wpkh_address lib compressed Bitcoin = Some n1" "p2sh_p2wpkh_address lib compressed Testnet = Some n2"
    and p2wpkh: "p2wpkh_address lib compressed Bitcoin = Some w1" "p2wpkh_address lib compressed Testnet = Some w2"
    and p2tr: "p2tr_address lib (if length compressed = 33 then take 32 (drop 1 compressed) else compressed) Bitcoin = Some t1"
      "p2tr_address lib (if length compressed = 33 then take 32 (drop 1 compressed) else compressed) Testnet = Some t2"
  shows "derivedAddresses lib key = Inr [c1, c2, u1, u2, n1, n2, w1, w2, t1, t2]"
proof -
  have "compressPublicKey lib key = Inr compressed" "uncompressPublicKey lib key = Inr uncompressed"
    using forms by (simp_all add: compressPublicKey_def uncompressPublicKey_def)
  moreover have "convertPubKeyIntoAddress lib compressed P2pkh = Inr \<lparr>mainnet = c1, testnet = c2\<rparr>"
    using p2pkhC by (simp add: convertPubKeyIntoAddress_def both_Some)
  moreover have "convertPubKeyIntoAddress lib uncompressed P2pkh = Inr \<lparr>mainnet = u1, testnet = u2\<rparr>"
    using p2pkhU by (simp add: convertPubKeyIntoAddress_def both_Some)
  moreover have "convertPubKeyIntoAddress lib compressed P2sh_p2wpkh = Inr \<lparr>mainnet = n1, testnet = n2\<rparr>"
    using p2sh by (simp add: convertPubKeyIntoAddress_def both_Some)
  moreover have "convertPubKeyIntoAddress lib compressed P2wpkh = Inr \<lparr>mainnet = w1, testnet = w2\<rparr>"
    using p2wpkh by (simp add: convertPubKeyIntoAddress_def both_Some)
  moreover have "convertPubKeyIntoAddress lib compressed P2tr = Inr \<lparr>mainnet = t1, testnet = t2\<rparr>"
    using p2tr by (simp add: convertPubKeyIntoAddress_def Let_def both_Some)
  ultimately show ?thesis
    by (simp add: derivedAddresses_def andThen_def)
qed

lemma verifyLegacy_parts:
  fixes header :: byte
  assumes "length r = 32" "length s = 32" "27 \<le> unat header" "unat header \<le> 42"
  shows "verifyLegacy env address message (header # r @ s) =
     (case recoverPublicKey env (messageHash env message) r s ((unat header - 27) mod 4) of
        None \<Rightarrow> Inl RecoveryFailed
      | Some key \<Rightarrow>
          (case derivedAddresses env key of
             Inl e \<Rightarrow> Inl e
           | Inr derived \<Rightarrow> Inr (address \<in> set derived)))"
proof -
  have "drop 33 (header # r @ s) = s"
    using assms(1) by (simp add: drop_Cons')
  moreover have "take 32 (drop 1 (header # r @ s)) = r"
    using assms(1) by simp
  moreover have "\<not> (unat header < 27 \<or> 42 < unat header)"
    using assms(3,4) by auto
  moreover have "length (header # r @ s) = 65"
    using assms(1,2) by simp
  moreover have "take 32 s = s"
    using assms(2) by simp
  ultimately show ?thesis
    unfolding verifyLegacy_def Let_def
    by (simp only: nth_Cons_0 if_False simp_thms)
qed

text \<open>
  C4. For a legacy signature of 65 bytes with a header in \<open>[27, 42]\<close> from which a key is
  recovered, and a valid address, \<open>verifySignature\<close> returns true when the address is one
  of the ten derived from the key and false otherwise: the P2PKH addresses of the
  compressed and of the uncompressed key and the P2SH-P2WPKH, P2WPKH and P2TR addresses
  of the compressed key (for P2TR reduced to its 32 bytes when it has 33), each on
  mainnet and on testnet. The key's two forms and its addresses are what elliptic and
  bitcoinjs-lib return.
\<close>

theorem legacy_cross_type:
  fixes header :: byte
  assumes signature: "length r = 32" "length s = 32" "27 \<le> unat header" "unat header \<le> 42"
    and recovered:
      "recoverPublicKey env (messageHash env message) r s ((unat header - 27) mod 4) = Some key"
    and forms: "getPublic env True key = Some compressed" "getPublic env False key = Some uncompressed"
    and p2pkhC: "p2pkh_address env compressed Bitcoin = Some c1" "p2pkh_address env compressed Testnet = Some c2"
    and p2pkhU: "p2pkh_address env uncompressed Bitcoin = Some u1" "p2pkh_address env uncompressed Testnet = Some u2"
    and p2sh: "p2sh_p2wpkh_address env compressed Bitcoin = Some n1" "p2sh_p2wpkh_address env compressed Testnet = Some n2"
    and p2wpkh: "p2wpkh_address env compressed Bitcoin = Some w1" "p2wpkh_address env compressed Testnet = Some w2"
    and p2tr: "p2tr_address env (if length compressed = 33 then take 32 (drop 1 compressed) else compressed) Bitcoin = Some t1"
      "p2tr_address env (if length compressed = 33 then take 32 (drop 1 compressed) else compressed) Testnet = Some t2"
    and valid: "isValidBitcoinAddress env address"
  shows "verifySignature env address message (base64_encode (header # r @ s))
       = Inr (address \<in> {c1, c2, u1, u2, n1, n2, w1, w2, t1, t2})"
proof -
  have "isLegacySignature (base64_encode (header # r @ s))"
    using signature(1,2) by (simp add: isLegacySignature_def base64_roundtrip)
  then have "verifySignature env address message (base64_encode (header # r @ s))
      = verifyLegacy env address message (header # r @ s)"
    using valid by (simp add: verifySignature_def base64_roundtrip)
  also have "\<dots> = Inr (address \<in> set [c1, c2, u1, u2, n1, n2, w1, w2, t1, t2])"
    using derivedAddresses_list [OF forms p2pkhC p2pkhU p2sh p2wpkh p2tr] recovered
    by (simp only: verifyLegacy_parts [OF signature] option.case sum.case)
  finally show ?thesis by simp
qed

theorem legacy_cross_type_witness:
  "verifySignature example_env ''bc1ptaproot'' [] (base64_encode (32 # replicate 32 0x11 @ replicate 32 0x22)) = Inr True
   \<and> verifySignature example_env ''1unrelated'' [] (base64_encode (32 # replicate 32 0x11 @ replicate 32 0x22)) = Inr False"
  using legacy_cross_type [of "replicate 32 0x11" "replicate 32 0x22" 32 example_env "[]"
      "replicate 33 0x02" "replicate 33 0x02" "replicate 65 0x04"
      "''1compressed''" "''mcompressed''" "''1uncompressed''" "''muncompressed''"
      "''3nested''" "''2nested''" "''bc1qnative''" "''tb1qnative''" "''bc1ptaproot''" "''tb1ptaproot''"
      "''bc1ptaproot''"]
    legacy_cross_type [of "replicate 32 0x11" "replicate 32 0x22" 32 example_env "[]"
      "replicate 33 0x02" "replicate 33 0x02" "replicate 65 0x04"
      "''1compressed''" "''mcompressed''" "''1uncompressed''" "''muncompressed''"
      "''3nested''" "''2nested''" "''bc1qnative''" "''tb1qnative''" "''bc1ptaproot''" "''tb1ptaproot''"
      "''1unrelated''"]
  by (simp add: example_env_def isValidBitcoinAddress_def isValidBitcoinAddress_log_def)

end
